theory Spec2Isabelle
  imports Main
begin

section \<open>ts-option: the Option container and its combinators\<close>

text \<open>
  The library is a handful of TypeScript functions over a two-variant tagged union.
  The files modelled are \<^verbatim>\<open>option.ts\<close> (the type, \<^verbatim>\<open>some\<close>, \<^verbatim>\<open>none\<close>, the constant
  \<^verbatim>\<open>NONE\<close>), \<^verbatim>\<open>guards.ts\<close> (\<^verbatim>\<open>isSome\<close>, \<^verbatim>\<open>isNone\<close>), \<^verbatim>\<open>transformations.ts\<close>
  (\<^verbatim>\<open>filter\<close>, \<^verbatim>\<open>map\<close>, \<^verbatim>\<open>flatMap\<close>, \<^verbatim>\<open>liftA2\<close>, \<^verbatim>\<open>matchOption\<close>, \<^verbatim>\<open>and\<close>, \<^verbatim>\<open>or\<close>),
  the unwrapping module (\<^verbatim>\<open>unwrapOr\<close>, \<^verbatim>\<open>unwrap\<close>, \<^verbatim>\<open>OrElse\<close>), \<^verbatim>\<open>OptionError\<close> and
  \<^verbatim>\<open>from.ts\<close> (\<^verbatim>\<open>fromNullable\<close>).
\<close>

subsection \<open>Values\<close>

text \<open>
  The payload type \<^verbatim>\<open>T\<close> is generic and the library never looks inside a payload,
  except for the two comparisons \<^verbatim>\<open>value === null\<close> and \<^verbatim>\<open>value === undefined\<close> of
  \<^verbatim>\<open>fromNullable\<close>. A payload is a JavaScript value: the two absence sentinels, the
  primitives, and arrays (the pair built by \<^verbatim>\<open>and\<close> is a two-element array). Numbers
  are integers here (no operation of the library computes with them) and an array is
  its list of elements.
\<close>

datatype js = Null | Undefined | Boolean bool | Number int | String string | Array "js list"

text \<open>
  \<^verbatim>\<open>interface Some<T> { readonly kind: 'some'; value: T }\<close> and
  \<^verbatim>\<open>interface None { readonly kind: 'none' }\<close>. An object of either interface is a
  record of its fields together with its address \<open>ident\<close>: JavaScript's \<^verbatim>\<open>===\<close> on
  objects compares addresses, and two objects with the same fields are still two
  objects. The library has no assignment statement at all: no function of it writes a
  field of an Option after the object literal that builds it, so the fields travel with
  the address. (The interface leaves \<^verbatim>\<open>value\<close> writable; a caller that assigns it is
  not covered here.) Reading \<^verbatim>\<open>value\<close> from an object that has no such property
  yields \<^verbatim>\<open>undefined\<close>.
\<close>

record Option =
  ident :: nat
  kind :: string
  "value" :: js

text \<open>
  The program state a call can change: the next free address (every object literal
  \<^verbatim>\<open>{ kind: 'some', value }\<close> evaluates to a fresh object) and \<open>env\<close>, everything
  else the calling program owns (the variables its callbacks read and write).
\<close>

record 'u world =
  next_ident :: nat
  env :: 'u

text \<open>
  \<^verbatim>\<open>class OptionError extends Error\<close>: an error object has a \<^verbatim>\<open>name\<close> and a
  \<^verbatim>\<open>message\<close>. JavaScript can throw any value, so a thrown exception is an error
  object or a plain value.
\<close>

record error_obj =
  name :: string
  message :: string

datatype exn = Raised error_obj | Thrown js

text \<open>
  A computation that may throw and may change the state: what a call of a
  caller-supplied function is, and what a call of a combinator that invokes one is.
\<close>

type_synonym ('u, 'a) effect = "'u world \<Rightarrow> (exn + 'a) \<times> 'u world"

definition ret :: "'a \<Rightarrow> 'w \<Rightarrow> (exn + 'a) \<times> 'w" where
  \<comment> \<open>\<^verbatim>\<open>return a\<close>: no effect.\<close>
  "ret a w = (Inr a, w)"

definition returns :: "('w \<Rightarrow> 'a \<times> 'w) \<Rightarrow> 'w \<Rightarrow> (exn + 'a) \<times> 'w" where
  \<comment> \<open>A call that cannot throw, used where a computation is expected.\<close>
  "returns m w = (case m w of (a, w') \<Rightarrow> (Inr a, w'))"

definition andThen ::
  "('w \<Rightarrow> (exn + 'a) \<times> 'w) \<Rightarrow> ('a \<Rightarrow> 'w \<Rightarrow> (exn + 'b) \<times> 'w) \<Rightarrow> 'w \<Rightarrow> (exn + 'b) \<times> 'w" where
  \<comment> \<open>JavaScript's evaluation order: the argument first, then the call that consumes
      it; an exception of the first ends the whole expression.\<close>
  "andThen m k w = (case m w of (Inl e, w') \<Rightarrow> (Inl e, w') | (Inr a, w') \<Rightarrow> k a w')"

subsection \<open>option.ts\<close>

definition NONE :: Option where
  \<comment> \<open>\<^verbatim>\<open>const NONE: None = { kind: 'none' }\<close>, evaluated once when the module loads: the
      first object of the module.\<close>
  "NONE = \<lparr>ident = 0, kind = ''none'', value = Undefined\<rparr>"

definition loaded :: "'u \<Rightarrow> 'u world" where
  \<comment> \<open>The state right after the module has been loaded.\<close>
  "loaded u = \<lparr>next_ident = 1, env = u\<rparr>"

definition some :: "js \<Rightarrow> 'u world \<Rightarrow> Option \<times> 'u world" where
  \<comment> \<open>\<^verbatim>\<open>return { kind: 'some', value }\<close>\<close>
  "some v w = (\<lparr>ident = next_ident w, kind = ''some'', value = v\<rparr>,
               w\<lparr>next_ident := Suc (next_ident w)\<rparr>)"

definition none :: "'u world \<Rightarrow> Option \<times> 'u world" where
  \<comment> \<open>\<^verbatim>\<open>return NONE\<close>\<close>
  "none w = (NONE, w)"

subsection \<open>guards.ts\<close>

definition isSome :: "Option \<Rightarrow> bool" where
  "isSome option = (kind option = ''some'')"

definition isNone :: "Option \<Rightarrow> bool" where
  "isNone option = (kind option = ''none'')"

subsection \<open>OptionError\<close>

definition OptionError :: "string option \<Rightarrow> error_obj" where
  \<comment> \<open>\<^verbatim>\<open>constructor(message: string = 'Attempted to unwrap a None value')\<close>: the
      default applies when the argument is omitted or \<^verbatim>\<open>undefined\<close> (\<open>None\<close> here).\<close>
  "OptionError msg =
     \<lparr>name = ''OptionError'',
      message = (case msg of None \<Rightarrow> ''Attempted to unwrap a None value'' | Some m \<Rightarrow> m)\<rparr>"

subsection \<open>transformations.ts\<close>

definition filter_Option :: "Option \<Rightarrow> (js \<Rightarrow> ('u, bool) effect) \<Rightarrow> ('u, Option) effect" where
  "filter_Option option predicate =
     (if isSome option
      then andThen (predicate (value option))
             (\<lambda>b. if b then ret option else returns none)
      else returns none)"

definition map_Option :: "Option \<Rightarrow> (js \<Rightarrow> ('u, js) effect) \<Rightarrow> ('u, Option) effect" where
  "map_Option option fn =
     (if isSome option
      then andThen (fn (value option)) (\<lambda>u. returns (some u))
      else returns none)"

definition flatMap :: "Option \<Rightarrow> (js \<Rightarrow> ('u, Option) effect) \<Rightarrow> ('u, Option) effect" where
  "flatMap option fn = (if isSome option then fn (value option) else returns none)"

definition liftA2 ::
  "(js \<Rightarrow> js \<Rightarrow> ('u, js) effect) \<Rightarrow> Option \<Rightarrow> Option \<Rightarrow> ('u, Option) effect" where
  "liftA2 fn option1 option2 =
     (if isSome option1 \<and> isSome option2
      then andThen (fn (value option1) (value option2)) (\<lambda>v. returns (some v))
      else returns none)"

definition matchOption ::
  "Option \<Rightarrow> (js \<Rightarrow> ('u, Option) effect) \<Rightarrow> ('u, Option) effect \<Rightarrow> ('u, Option) effect" where
  "matchOption option onSome onNone =
     (if isSome option then onSome (value option) else onNone)"

definition and_Option :: "Option \<Rightarrow> Option \<Rightarrow> 'u world \<Rightarrow> Option \<times> 'u world" where
  "and_Option option1 option2 =
     (if isSome option1 \<and> isSome option2
      then some (Array [value option1, value option2])
      else none)"

definition or_Option :: "Option \<Rightarrow> Option \<Rightarrow> Option" where
  "or_Option option1 option2 = (if isSome option1 then option1 else option2)"

subsection \<open>The unwrapping module\<close>

definition unwrapOr :: "Option \<Rightarrow> js \<Rightarrow> js" where
  "unwrapOr option defaultValue = (if isSome option then value option else defaultValue)"

definition unwrap :: "Option \<Rightarrow> string option \<Rightarrow> exn + js" where
  \<comment> \<open>\<^verbatim>\<open>message?: string\<close>: \<open>None\<close> is the omitted argument.\<close>
  "unwrap option msg =
     (if isSome option then Inr (value option) else Inl (Raised (OptionError msg)))"

definition OrElse :: "Option \<Rightarrow> ('u, Option) effect \<Rightarrow> ('u, Option) effect" where
  \<comment> \<open>Exported as \<^verbatim>\<open>OrElse\<close> by the unwrapping module and as \<^verbatim>\<open>orElse\<close> by the
      consolidated file, with the same body.\<close>
  "OrElse option alternative = (if isSome option then ret option else alternative)"

subsection \<open>from.ts\<close>

definition fromNullable :: "js \<Rightarrow> 'u world \<Rightarrow> Option \<times> 'u world" where
  "fromNullable v = (if v = Null \<or> v = Undefined then none else some v)"

subsection \<open>Observing callbacks\<close>

text \<open>
  A callback is any function of the state. Two devices say what a combinator does with
  one. \<open>counted f\<close> runs \<open>f\<close> in a state that carries a tally out of the reach of \<open>f\<close>
  and adds one to the tally each time it is invoked. \<open>on_env c\<close> is a callback that
  works on the caller's variables only: it allocates no Option and cannot tell how
  many have been allocated.
\<close>

definition counted :: "('u world \<Rightarrow> 'r \<times> 'u world) \<Rightarrow> (nat \<times> 'u) world \<Rightarrow> 'r \<times> (nat \<times> 'u) world" where
  "counted f w =
     (case f \<lparr>next_ident = next_ident w, env = snd (env w)\<rparr> of
        (r, w') \<Rightarrow> (r, \<lparr>next_ident = next_ident w', env = (Suc (fst (env w)), env w')\<rparr>))"

definition invocations :: "(nat \<times> 'u) world \<Rightarrow> nat" where
  "invocations w = fst (env w)"

definition on_env :: "('u \<Rightarrow> 'r \<times> 'u) \<Rightarrow> 'u world \<Rightarrow> 'r \<times> 'u world" where
  "on_env c w = (case c (env w) of (r, u') \<Rightarrow> (r, w\<lparr>env := u'\<rparr>))"

definition contents :: "(exn + Option) \<times> 'u world \<Rightarrow> (exn + string \<times> js) \<times> 'u" where
  \<comment> \<open>What a caller sees of an outcome when it does not compare addresses (the
      comparison of jest's \<^verbatim>\<open>toEqual\<close>): the exception, or the fields of the
      returned Option, and the caller's own variables.\<close>
  "contents r =
     (case r of
        (Inl e, w) \<Rightarrow> (Inl e, env w)
      | (Inr option, w) \<Rightarrow> (Inr (kind option, value option), env w))"

section \<open>Basic facts\<close>

lemma isSome_some: "isSome (fst (some v w))"
  by (simp add: isSome_def some_def)

lemma value_some: "value (fst (some v w)) = v"
  by (simp add: some_def)

lemma isNone_NONE: "isNone NONE"
  by (simp add: isNone_def NONE_def)

lemma not_isSome_NONE: "\<not> isSome NONE"
  by (simp add: isSome_def NONE_def)

lemma isNone_not_isSome: "isNone option \<Longrightarrow> \<not> isSome option"
  by (simp add: isNone_def isSome_def)

lemma isNone_some: "\<not> isNone (fst (some v w))"
  by (simp add: isNone_def some_def)

lemma some_is_fresh: "fst (some v (snd (some v w))) \<noteq> fst (some v w)"
  by (simp add: some_def)

lemma unwrapOr_some: "unwrapOr (fst (some v w)) d = v"
  by (simp add: unwrapOr_def isSome_some value_some)

lemma unwrapOr_none: "unwrapOr (fst (none w)) d = d"
  by (simp add: unwrapOr_def none_def not_isSome_NONE)

lemma flatMap_some: "flatMap (fst (some v w0)) fn w = fn v w"
  by (simp add: flatMap_def isSome_some value_some)

lemma matchOption_dispatch:
  "matchOption (fst (some v w0)) onSome onNone w = onSome v w"
  "matchOption (fst (none w0)) onSome onNone w = onNone w"
  by (simp_all add: matchOption_def isSome_some value_some none_def not_isSome_NONE)

lemma andThen_raises:
  "andThen m k w = (Inl e, w') \<Longrightarrow>
     m w = (Inl e, w') \<or> (\<exists>a w1. m w = (Inr a, w1) \<and> k a w1 = (Inl e, w'))"
  by (auto simp add: andThen_def split: prod.splits sum.splits)

lemma returns_never_raises: "returns m w \<noteq> (Inl e, w')"
  by (simp add: returns_def split: prod.splits)

lemma ret_never_raises: "ret a w \<noteq> (Inl e, w')"
  by (simp add: ret_def)

subsection \<open>Counting invocations\<close>

lemma invocations_counted:
  "invocations (snd (counted f w)) = Suc (invocations w)"
  by (simp add: counted_def invocations_def split: prod.splits)

lemma invocations_returns_none:
  "invocations (snd (returns none w)) = invocations w"
  by (simp add: returns_def none_def)

lemma invocations_returns_some:
  "invocations (snd (returns (some v) w)) = invocations w"
  by (simp add: returns_def some_def invocations_def)

lemma invocations_ret:
  "invocations (snd (ret a w)) = invocations w"
  by (simp add: ret_def)

lemma invocations_andThen_counted:
  assumes "\<And>a w'. invocations (snd (k a w')) = invocations w'"
  shows "invocations (snd (andThen (counted f) k w)) = Suc (invocations w)"
proof (cases "counted f w")
  case (Pair r w')
  have n: "invocations w' = Suc (invocations w)"
    using invocations_counted [of f w] Pair by simp
  show ?thesis
  proof (cases r)
    case (Inl e)
    with Pair n show ?thesis by (simp add: andThen_def)
  next
    case (Inr a)
    with Pair n assms [of a w'] show ?thesis by (simp add: andThen_def)
  qed
qed

section \<open>Extraction\<close>

text \<open>
  C1. For every value \<open>v\<close>, \<^verbatim>\<open>unwrap(some(v))\<close> returns \<open>v\<close>. \<^verbatim>\<open>unwrap\<close> applied to a
  None raises an \<^verbatim>\<open>OptionError\<close>: with the caller's message when one is supplied, with
  the constructor's fixed default otherwise. No other operation raises. \<^verbatim>\<open>some\<close>,
  \<^verbatim>\<open>none\<close>, \<^verbatim>\<open>isSome\<close>, \<^verbatim>\<open>isNone\<close>, \<^verbatim>\<open>and\<close>, \<^verbatim>\<open>or\<close>, \<^verbatim>\<open>unwrapOr\<close> and \<^verbatim>\<open>fromNullable\<close>
  contain no \<^verbatim>\<open>throw\<close> and call nothing that throws, so their results carry no
  exception at all. \<^verbatim>\<open>map\<close>, \<^verbatim>\<open>flatMap\<close>, \<^verbatim>\<open>filter\<close>, \<^verbatim>\<open>liftA2\<close>, \<^verbatim>\<open>matchOption\<close> and
  \<^verbatim>\<open>OrElse\<close> invoke a caller-supplied function: whenever one of them ends in an
  exception, it is the exception that the callback it invoked has thrown, with the
  state that callback left.
\<close>

theorem unwrap_only_failure:
  "unwrap (fst (some v w0)) msg = Inr v
   \<and> (isSome option \<longrightarrow> unwrap option msg = Inr (value option))
   \<and> (isNone option \<longrightarrow>
        unwrap option (Some m) = Inl (Raised \<lparr>name = ''OptionError'', message = m\<rparr>))
   \<and> (isNone option \<longrightarrow> unwrap option None = Inl (Raised (OptionError None)))
   \<and> (map_Option option fn w = (Inl e, w') \<longrightarrow>
        isSome option \<and> fn (value option) w = (Inl e, w'))
   \<and> (flatMap option fm w = (Inl e, w') \<longrightarrow>
        isSome option \<and> fm (value option) w = (Inl e, w'))
   \<and> (filter_Option option predicate w = (Inl e, w') \<longrightarrow>
        isSome option \<and> predicate (value option) w = (Inl e, w'))
   \<and> (liftA2 f2 option option2 w = (Inl e, w') \<longrightarrow>
        isSome option \<and> isSome option2 \<and> f2 (value option) (value option2) w = (Inl e, w'))
   \<and> (matchOption option onSome onNone w = (Inl e, w') \<longrightarrow>
        (isSome option \<and> onSome (value option) w = (Inl e, w'))
        \<or> (\<not> isSome option \<and> onNone w = (Inl e, w')))
   \<and> (OrElse option alt w = (Inl e, w') \<longrightarrow>
        \<not> isSome option \<and> alt w = (Inl e, w'))"
proof -
  have u1: "unwrap (fst (some v w0)) msg = Inr v"
    by (simp add: unwrap_def isSome_some value_some)
  have u2: "isSome option \<longrightarrow> unwrap option msg = Inr (value option)"
    by (simp add: unwrap_def)
  have u3: "isNone option \<longrightarrow>
        unwrap option (Some m) = Inl (Raised \<lparr>name = ''OptionError'', message = m\<rparr>)"
    by (simp add: unwrap_def OptionError_def isNone_not_isSome)
  have u4: "isNone option \<longrightarrow> unwrap option None = Inl (Raised (OptionError None))"
    by (simp add: unwrap_def isNone_not_isSome)
  have m1: "map_Option option fn w = (Inl e, w') \<longrightarrow>
        isSome option \<and> fn (value option) w = (Inl e, w')"
    by (auto simp add: map_Option_def returns_never_raises split: if_splits
        dest!: andThen_raises)
  have m2: "flatMap option fm w = (Inl e, w') \<longrightarrow>
        isSome option \<and> fm (value option) w = (Inl e, w')"
    by (auto simp add: flatMap_def returns_never_raises split: if_splits)
  have m3: "filter_Option option predicate w = (Inl e, w') \<longrightarrow>
        isSome option \<and> predicate (value option) w = (Inl e, w')"
    by (auto simp add: filter_Option_def returns_never_raises ret_never_raises
        split: if_splits dest!: andThen_raises)
  have m4: "liftA2 f2 option option2 w = (Inl e, w') \<longrightarrow>
        isSome option \<and> isSome option2 \<and> f2 (value option) (value option2) w = (Inl e, w')"
    by (auto simp add: liftA2_def returns_never_raises split: if_splits
        dest!: andThen_raises)
  have m5: "matchOption option onSome onNone w = (Inl e, w') \<longrightarrow>
        (isSome option \<and> onSome (value option) w = (Inl e, w'))
        \<or> (\<not> isSome option \<and> onNone w = (Inl e, w'))"
    by (simp add: matchOption_def)
  have m6: "OrElse option alt w = (Inl e, w') \<longrightarrow>
        \<not> isSome option \<and> alt w = (Inl e, w')"
    by (auto simp add: OrElse_def ret_never_raises split: if_splits)
  from u1 u2 u3 u4 m1 m2 m3 m4 m5 m6 show ?thesis by blast
qed

text \<open>
  At \<^verbatim>\<open>some(5)\<close> built right after module load, at the shared None, and for
  \<^verbatim>\<open>map(some(5), x => { throw x })\<close>, whose exception is the callback's.
\<close>

theorem unwrap_only_failure_witness:
  "isSome \<lparr>ident = 1, kind = ''some'', value = Number 5\<rparr>
   \<and> unwrap \<lparr>ident = 1, kind = ''some'', value = Number 5\<rparr> None = Inr (Number 5)
   \<and> isNone NONE
   \<and> unwrap NONE (Some ''m'') = Inl (Raised \<lparr>name = ''OptionError'', message = ''m''\<rparr>)
   \<and> unwrap NONE None = Inl (Raised (OptionError None))
   \<and> map_Option \<lparr>ident = 1, kind = ''some'', value = Number 5\<rparr> (\<lambda>x w. (Inl (Thrown x), w))
        (loaded ()) = (Inl (Thrown (Number 5)), loaded ())
   \<and> (\<lambda>x w. (Inl (Thrown x), w)) (value \<lparr>ident = 1, kind = ''some'', value = Number 5\<rparr>)
        (loaded ()) = (Inl (Thrown (Number 5)), loaded ())"
proof -
  let ?five = "\<lparr>ident = 1, kind = ''some'', value = Number 5\<rparr>"
  let ?throw = "\<lambda>x (w :: unit world). (Inl (Thrown x) :: exn + js, w)"
  have s: "isSome ?five"
    by (simp add: isSome_def)
  have n: "isNone NONE"
    by (rule isNone_NONE)
  have a: "unwrap ?five None = Inr (value ?five)"
    using unwrap_only_failure s by blast
  have b: "unwrap NONE (Some ''m'') = Inl (Raised \<lparr>name = ''OptionError'', message = ''m''\<rparr>)"
    using unwrap_only_failure n by blast
  have c: "unwrap NONE None = Inl (Raised (OptionError None))"
    using unwrap_only_failure n by blast
  have d: "map_Option ?five ?throw (loaded ()) = (Inl (Thrown (Number 5)), loaded ())"
    by (simp add: map_Option_def isSome_def andThen_def)
  have e: "?throw (value ?five) (loaded ()) = (Inl (Thrown (Number 5)), loaded ())"
    using unwrap_only_failure d by blast
  from s n a b c d e show ?thesis by simp
qed

text \<open>
  C2, as the specification states it: the error raised by \<^verbatim>\<open>unwrap\<close> on \<^verbatim>\<open>none()\<close>
  without a message carries the text "attempted to extract from an absent value".
  It does not: right after module load the message is the constructor's default,
  another text.
\<close>

theorem unwrap_default_text_counterexample:
  "unwrap (fst (none (loaded ()))) None
     = Inl (Raised \<lparr>name = ''OptionError'', message = ''Attempted to unwrap a None value''\<rparr>)
   \<and> ''Attempted to unwrap a None value'' \<noteq> ''attempted to extract from an absent value''"
  by (simp add: unwrap_def none_def isSome_def NONE_def OptionError_def)

text \<open>
  C2, amended: when \<^verbatim>\<open>unwrap\<close> is called on \<^verbatim>\<open>none()\<close> without a caller-supplied
  message, the \<^verbatim>\<open>OptionError\<close> it raises carries the fixed default text
  "Attempted to unwrap a None value".
\<close>

theorem unwrap_default_text:
  "unwrap (fst (none w)) None
     = Inl (Raised \<lparr>name = ''OptionError'', message = ''Attempted to unwrap a None value''\<rparr>)"
  by (simp add: unwrap_def none_def isSome_def NONE_def OptionError_def)

section \<open>Conversion\<close>

text \<open>
  C3. \<^verbatim>\<open>fromNullable\<close> returns None exactly when its argument is \<^verbatim>\<open>null\<close> or
  \<^verbatim>\<open>undefined\<close>, and a Some holding the argument for every other input; in particular
  for the falsy values \<^verbatim>\<open>0\<close>, \<^verbatim>\<open>""\<close> and \<^verbatim>\<open>false\<close>.
\<close>

theorem fromNullable_sentinels:
  "(v = Null \<or> v = Undefined \<longrightarrow> fromNullable v w = (NONE, w))
   \<and> (v \<noteq> Null \<and> v \<noteq> Undefined \<longrightarrow>
        fromNullable v w = some v w \<and> isSome (fst (fromNullable v w))
        \<and> value (fst (fromNullable v w)) = v)
   \<and> (isNone (fst (fromNullable v w)) \<longleftrightarrow> v = Null \<or> v = Undefined)
   \<and> fromNullable (Number 0) w = some (Number 0) w
   \<and> fromNullable (String '''') w = some (String '''') w
   \<and> fromNullable (Boolean False) w = some (Boolean False) w"
  by (auto simp add: fromNullable_def none_def some_def isNone_def isSome_def NONE_def)

theorem fromNullable_sentinels_witness:
  "fromNullable Null (loaded ()) = (NONE, loaded ())
   \<and> fromNullable Undefined (loaded ()) = (NONE, loaded ())
   \<and> fromNullable (Number 0) (loaded ())
       = (\<lparr>ident = 1, kind = ''some'', value = Number 0\<rparr>, \<lparr>next_ident = 2, env = ()\<rparr>)
   \<and> isSome (fst (fromNullable (Number 0) (loaded ())))
   \<and> \<not> isNone (fst (fromNullable (Number 0) (loaded ())))"
  using fromNullable_sentinels [of Null "loaded ()"]
    fromNullable_sentinels [of Undefined "loaded ()"]
    fromNullable_sentinels [of "Number 0" "loaded ()"]
  by (simp add: some_def loaded_def)

section \<open>Transformations\<close>

text \<open>
  C4. \<^verbatim>\<open>filter\<close> on a Some whose payload satisfies the predicate returns the Option it
  was given: the same object, address included, and nothing is allocated (the state
  is the one the predicate left). When the predicate answers false, and when the input
  is a None, it returns the shared None. On a None the predicate is not invoked: the
  state is untouched whatever the predicate is, and a counted predicate has tally
  unchanged (on a Some the tally goes up by one).
\<close>

theorem filter_Option_keeps_instance:
  "(isSome option \<and> predicate (value option) w = (Inr True, w') \<longrightarrow>
      filter_Option option predicate w = (Inr option, w'))
   \<and> (isSome option \<and> predicate (value option) w = (Inr False, w') \<longrightarrow>
      filter_Option option predicate w = (Inr NONE, w'))
   \<and> (isNone option \<longrightarrow> filter_Option option predicate w = (Inr NONE, w))
   \<and> (isNone option \<longrightarrow>
      invocations (snd (filter_Option option (\<lambda>x. counted (p x)) wc)) = invocations wc)
   \<and> (isSome option \<longrightarrow>
      invocations (snd (filter_Option option (\<lambda>x. counted (p x)) wc)) = Suc (invocations wc))"
proof -
  have after: "invocations (snd ((if b then ret option else returns none) v))
      = invocations v" for b and v :: "(nat \<times> 'c) world"
    by (simp add: invocations_ret invocations_returns_none)
  have pass: "isSome option \<and> predicate (value option) w = (Inr True, w') \<longrightarrow>
      filter_Option option predicate w = (Inr option, w')"
    by (simp add: filter_Option_def andThen_def ret_def)
  have fail: "isSome option \<and> predicate (value option) w = (Inr False, w') \<longrightarrow>
      filter_Option option predicate w = (Inr NONE, w')"
    by (simp add: filter_Option_def andThen_def returns_def none_def)
  have absent: "isNone option \<longrightarrow> filter_Option option predicate w = (Inr NONE, w)"
    by (simp add: filter_Option_def returns_def none_def isNone_not_isSome)
  have never: "isNone option \<longrightarrow>
      invocations (snd (filter_Option option (\<lambda>x. counted (p x)) wc)) = invocations wc"
    by (simp add: filter_Option_def invocations_returns_none isNone_not_isSome)
  have once: "isSome option \<longrightarrow>
      invocations (snd (filter_Option option (\<lambda>x. counted (p x)) wc)) = Suc (invocations wc)"
    by (simp add: filter_Option_def invocations_andThen_counted after)
  from pass fail absent never once show ?thesis by blast
qed

text \<open>
  \<^verbatim>\<open>filter(some(5), x => x === 5)\<close>, \<^verbatim>\<open>filter(some(5), x => x === 7)\<close> and
  \<^verbatim>\<open>filter(none(), x => x === 5)\<close>, with \<^verbatim>\<open>some(5)\<close> the object at address 1. A
  wrapper built anew at that point would be another object.
\<close>

theorem filter_Option_keeps_instance_witness:
  "isSome \<lparr>ident = 1, kind = ''some'', value = Number 5\<rparr>
   \<and> filter_Option \<lparr>ident = 1, kind = ''some'', value = Number 5\<rparr>
        (\<lambda>x. ret (x = Number 5)) \<lparr>next_ident = 2, env = ()\<rparr>
       = (Inr \<lparr>ident = 1, kind = ''some'', value = Number 5\<rparr>, \<lparr>next_ident = 2, env = ()\<rparr>)
   \<and> filter_Option \<lparr>ident = 1, kind = ''some'', value = Number 5\<rparr>
        (\<lambda>x. ret (x = Number 7)) \<lparr>next_ident = 2, env = ()\<rparr>
       = (Inr NONE, \<lparr>next_ident = 2, env = ()\<rparr>)
   \<and> isNone NONE
   \<and> filter_Option NONE (\<lambda>x. ret (x = Number 5)) \<lparr>next_ident = 2, env = ()\<rparr>
       = (Inr NONE, \<lparr>next_ident = 2, env = ()\<rparr>)
   \<and> invocations (snd (filter_Option NONE (\<lambda>x. counted (ret (x = Number 5)))
        \<lparr>next_ident = 2, env = (0, ())\<rparr>)) = 0
   \<and> invocations (snd (filter_Option \<lparr>ident = 1, kind = ''some'', value = Number 5\<rparr>
        (\<lambda>x. counted (ret (x = Number 5))) \<lparr>next_ident = 2, env = (0, ())\<rparr>)) = 1
   \<and> fst (some (Number 5) \<lparr>next_ident = 2, env = ()\<rparr>)
       \<noteq> \<lparr>ident = 1, kind = ''some'', value = Number 5\<rparr>"
proof -
  let ?five = "\<lparr>ident = 1, kind = ''some'', value = Number 5\<rparr>"
  let ?w = "\<lparr>next_ident = 2, env = ()\<rparr>"
  let ?wc = "\<lparr>next_ident = 2, env = (0 :: nat, ())\<rparr>"
  let ?is5 = "\<lambda>x. ret (x = Number 5) :: (unit, bool) effect"
  let ?is7 = "\<lambda>x. ret (x = Number 7) :: (unit, bool) effect"
  have s: "isSome ?five"
    by (simp add: isSome_def)
  have n: "isNone NONE"
    by (rule isNone_NONE)
  have yes: "?is5 (value ?five) ?w = (Inr True, ?w)"
    by (simp add: ret_def)
  have no: "?is7 (value ?five) ?w = (Inr False, ?w)"
    by (simp add: ret_def)
  have a: "filter_Option ?five ?is5 ?w = (Inr ?five, ?w)"
    using filter_Option_keeps_instance [where option = ?five and predicate = ?is5
        and w = ?w and w' = ?w] s yes by blast
  have b: "filter_Option ?five ?is7 ?w = (Inr NONE, ?w)"
    using filter_Option_keeps_instance [where option = ?five and predicate = ?is7
        and w = ?w and w' = ?w] s no by blast
  have c: "filter_Option NONE ?is5 ?w = (Inr NONE, ?w)"
    using filter_Option_keeps_instance [where option = NONE and predicate = ?is5
        and w = ?w] n by blast
  have d: "invocations (snd (filter_Option NONE (\<lambda>x. counted (ret (x = Number 5))) ?wc))
      = invocations ?wc"
    using filter_Option_keeps_instance [where option = NONE
        and p = "\<lambda>x. ret (x = Number 5)" and wc = ?wc] n by blast
  have e: "invocations (snd (filter_Option ?five (\<lambda>x. counted (ret (x = Number 5))) ?wc))
      = Suc (invocations ?wc)"
    using filter_Option_keeps_instance [where option = ?five
        and p = "\<lambda>x. ret (x = Number 5)" and wc = ?wc] s by blast
  from s n a b c d e show ?thesis
    by (simp add: invocations_def some_def)
qed


text \<open>
  C5. \<^verbatim>\<open>OrElse\<close> on a Some returns the Option it was given and never invokes the
  alternative: the state is untouched whatever the alternative is, and a counted
  alternative has its tally unchanged. On a None its outcome is exactly the outcome of
  one call of the alternative, returned as it is, and the tally goes up by one.
\<close>

theorem OrElse_lazy:
  "(isSome option \<longrightarrow> OrElse option alt w = (Inr option, w))
   \<and> (isNone option \<longrightarrow> OrElse option alt w = alt w)
   \<and> (isSome option \<longrightarrow>
        invocations (snd (OrElse option (counted a) wc)) = invocations wc)
   \<and> (isNone option \<longrightarrow>
        invocations (snd (OrElse option (counted a) wc)) = Suc (invocations wc))"
  by (simp add: OrElse_def ret_def isNone_not_isSome invocations_counted)

text \<open>
  \<^verbatim>\<open>OrElse(some(5), () => some(10))\<close>, \<^verbatim>\<open>OrElse(none(), () => some(10))\<close> and
  \<^verbatim>\<open>OrElse(none(), () => none())\<close>.
\<close>

theorem OrElse_lazy_witness:
  "isSome \<lparr>ident = 1, kind = ''some'', value = Number 5\<rparr>
   \<and> OrElse \<lparr>ident = 1, kind = ''some'', value = Number 5\<rparr> (returns (some (Number 10)))
        \<lparr>next_ident = 2, env = ()\<rparr>
       = (Inr \<lparr>ident = 1, kind = ''some'', value = Number 5\<rparr>, \<lparr>next_ident = 2, env = ()\<rparr>)
   \<and> isNone NONE
   \<and> OrElse NONE (returns (some (Number 10))) \<lparr>next_ident = 2, env = ()\<rparr>
       = (Inr \<lparr>ident = 2, kind = ''some'', value = Number 10\<rparr>, \<lparr>next_ident = 3, env = ()\<rparr>)
   \<and> OrElse NONE (returns none) \<lparr>next_ident = 2, env = ()\<rparr>
       = (Inr NONE, \<lparr>next_ident = 2, env = ()\<rparr>)
   \<and> invocations (snd (OrElse \<lparr>ident = 1, kind = ''some'', value = Number 5\<rparr>
        (counted (returns (some (Number 10)))) \<lparr>next_ident = 2, env = (0, ())\<rparr>)) = 0
   \<and> invocations (snd (OrElse NONE
        (counted (returns (some (Number 10)))) \<lparr>next_ident = 2, env = (0, ())\<rparr>)) = 1"
proof -
  let ?five = "\<lparr>ident = 1, kind = ''some'', value = Number 5\<rparr>"
  let ?w = "\<lparr>next_ident = 2, env = ()\<rparr>"
  let ?wc = "\<lparr>next_ident = 2, env = (0 :: nat, ())\<rparr>"
  let ?ten = "returns (some (Number 10)) :: (unit, Option) effect"
  have s: "isSome ?five"
    by (simp add: isSome_def)
  have n: "isNone NONE"
    by (rule isNone_NONE)
  have a: "OrElse ?five ?ten ?w = (Inr ?five, ?w)"
    using OrElse_lazy [where option = ?five and alt = ?ten and w = ?w] s by blast
  have b: "OrElse NONE ?ten ?w = ?ten ?w"
    using OrElse_lazy [where option = NONE and alt = ?ten and w = ?w] n by blast
  have c: "OrElse NONE (returns none) ?w = returns none ?w"
    using OrElse_lazy [where option = NONE and alt = "returns none" and w = ?w] n by blast
  have d: "invocations (snd (OrElse ?five (counted (returns (some (Number 10)))) ?wc))
      = invocations ?wc"
    using OrElse_lazy [where option = ?five and a = "returns (some (Number 10))"
        and wc = ?wc] s by blast
  have e: "invocations (snd (OrElse NONE (counted (returns (some (Number 10)))) ?wc))
      = Suc (invocations ?wc)"
    using OrElse_lazy [where option = NONE and a = "returns (some (Number 10))"
        and wc = ?wc] n by blast
  from s n a b c d e show ?thesis
    by (simp add: invocations_def returns_def some_def none_def)
qed


text \<open>
  C6. Functor composition: \<^verbatim>\<open>map(map(o, f), g)\<close> equals \<^verbatim>\<open>map(o, x => g(f(x)))\<close>.
  Every \<^verbatim>\<open>map\<close> of a Some allocates a new object, so the two sides are equal as
  \<^verbatim>\<open>toEqual\<close> compares them: the same fields, the same exception if one is thrown, and
  the same state of the caller's variables. This holds for functions without effects,
  and for functions that throw or change the caller's variables.
\<close>

theorem map_Option_composition:
  "contents (andThen (map_Option option (\<lambda>x. ret (f x))) (\<lambda>o1. map_Option o1 (\<lambda>y. ret (g y))) w)
     = contents (map_Option option (\<lambda>x. ret (g (f x))) w)
   \<and> contents (andThen (map_Option option (\<lambda>x. on_env (h x)))
                  (\<lambda>o1. map_Option o1 (\<lambda>y. on_env (k y))) w)
     = contents (map_Option option (\<lambda>x. on_env (andThen (h x) k)) w)"
proof (cases "isSome option")
  case True
  have pure: "contents (andThen (map_Option option (\<lambda>x. ret (f x)))
        (\<lambda>o1. map_Option o1 (\<lambda>y. ret (g y))) w)
      = contents (map_Option option (\<lambda>x. ret (g (f x))) w)"
    using True
    by (simp add: map_Option_def contents_def andThen_def ret_def returns_def some_def
        isSome_def)
  have effectful: "contents (andThen (map_Option option (\<lambda>x. on_env (h x)))
        (\<lambda>o1. map_Option o1 (\<lambda>y. on_env (k y))) w)
      = contents (map_Option option (\<lambda>x. on_env (andThen (h x) k)) w)"
    using True
    by (simp add: map_Option_def contents_def andThen_def returns_def some_def on_env_def
        isSome_def split: prod.splits sum.splits)
  from pure effectful show ?thesis ..
next
  case False
  then show ?thesis
    by (simp add: map_Option_def contents_def andThen_def returns_def none_def
        not_isSome_NONE)
qed


text \<open>
  C7. \<^verbatim>\<open>liftA2(f, some(a), some(b))\<close> is \<^verbatim>\<open>some(f(a, b))\<close>: one call of \<open>f\<close> on the two
  payloads, then one new Some of its result. The result is the shared None whenever
  either argument is a None, with the state untouched. \<open>f\<close> is invoked once when both
  arguments are Some and not at all otherwise.
\<close>

theorem liftA2_both_some:
  "liftA2 fn (fst (some a w1)) (fst (some b w2)) w
     = andThen (fn a b) (\<lambda>v. returns (some v)) w
   \<and> (fn a b w = (Inr v, w') \<longrightarrow>
        liftA2 fn (fst (some a w1)) (fst (some b w2)) w = (Inr (fst (some v w')), snd (some v w')))
   \<and> (isNone option1 \<or> isNone option2 \<longrightarrow> liftA2 fn option1 option2 w = (Inr NONE, w))
   \<and> invocations (snd (liftA2 (\<lambda>x y. counted (g x y)) option1 option2 wc))
       = (if isSome option1 \<and> isSome option2 then Suc (invocations wc) else invocations wc)"
proof -
  have both: "liftA2 fn (fst (some a w1)) (fst (some b w2)) w
     = andThen (fn a b) (\<lambda>v. returns (some v)) w"
    by (simp add: liftA2_def isSome_some value_some)
  have normal: "fn a b w = (Inr v, w') \<longrightarrow>
        liftA2 fn (fst (some a w1)) (fst (some b w2)) w = (Inr (fst (some v w')), snd (some v w'))"
    by (simp add: both andThen_def returns_def split: prod.splits)
  have absent: "isNone option1 \<or> isNone option2 \<longrightarrow> liftA2 fn option1 option2 w = (Inr NONE, w)"
    by (auto simp add: liftA2_def returns_def none_def dest: isNone_not_isSome)
  have tally: "invocations (snd (liftA2 (\<lambda>x y. counted (g x y)) option1 option2 wc))
       = (if isSome option1 \<and> isSome option2 then Suc (invocations wc) else invocations wc)"
    by (simp add: liftA2_def invocations_andThen_counted invocations_returns_some
        invocations_returns_none)
  from both normal absent tally show ?thesis by blast
qed

text \<open>
  \<^verbatim>\<open>liftA2((x, y) => [y, x], some(1), some(2))\<close>, and the same function with a None
  in either place.
\<close>

theorem liftA2_both_some_witness:
  "(\<lambda>x y. ret (Array [y, x])) (Number 1) (Number 2) \<lparr>next_ident = 3, env = ()\<rparr>
       = (Inr (Array [Number 2, Number 1]), \<lparr>next_ident = 3, env = ()\<rparr>)
   \<and> liftA2 (\<lambda>x y. ret (Array [y, x])) (fst (some (Number 1) (loaded ())))
        (fst (some (Number 2) (snd (some (Number 1) (loaded ()))))) \<lparr>next_ident = 3, env = ()\<rparr>
       = (Inr \<lparr>ident = 3, kind = ''some'', value = Array [Number 2, Number 1]\<rparr>,
          \<lparr>next_ident = 4, env = ()\<rparr>)
   \<and> isNone NONE
   \<and> liftA2 (\<lambda>x y. ret (Array [y, x])) NONE \<lparr>ident = 1, kind = ''some'', value = Number 1\<rparr>
        \<lparr>next_ident = 3, env = ()\<rparr> = (Inr NONE, \<lparr>next_ident = 3, env = ()\<rparr>)
   \<and> liftA2 (\<lambda>x y. ret (Array [y, x])) \<lparr>ident = 1, kind = ''some'', value = Number 1\<rparr> NONE
        \<lparr>next_ident = 3, env = ()\<rparr> = (Inr NONE, \<lparr>next_ident = 3, env = ()\<rparr>)
   \<and> invocations (snd (liftA2 (\<lambda>x y. counted (ret (Array [y, x])))
        \<lparr>ident = 1, kind = ''some'', value = Number 1\<rparr> NONE
        \<lparr>next_ident = 3, env = (0, ())\<rparr>)) = 0
   \<and> invocations (snd (liftA2 (\<lambda>x y. counted (ret (Array [y, x])))
        \<lparr>ident = 1, kind = ''some'', value = Number 1\<rparr>
        \<lparr>ident = 2, kind = ''some'', value = Number 2\<rparr>
        \<lparr>next_ident = 3, env = (0, ())\<rparr>)) = 1"
proof -
  let ?one = "\<lparr>ident = 1, kind = ''some'', value = Number 1\<rparr>"
  let ?two = "\<lparr>ident = 2, kind = ''some'', value = Number 2\<rparr>"
  let ?w = "\<lparr>next_ident = 3, env = ()\<rparr>"
  let ?wc = "\<lparr>next_ident = 3, env = (0 :: nat, ())\<rparr>"
  let ?swap = "\<lambda>x y. ret (Array [y, x]) :: (unit, js) effect"
  let ?swapc = "\<lambda>x y. ret (Array [y, x]) :: (unit world \<Rightarrow> (exn + js) \<times> unit world)"
  have n: "isNone NONE"
    by (rule isNone_NONE)
  have r: "?swap (Number 1) (Number 2) ?w = (Inr (Array [Number 2, Number 1]), ?w)"
    by (simp add: ret_def)
  have a: "liftA2 ?swap (fst (some (Number 1) (loaded ())))
        (fst (some (Number 2) (snd (some (Number 1) (loaded ()))))) ?w
      = (Inr (fst (some (Array [Number 2, Number 1]) ?w)),
         snd (some (Array [Number 2, Number 1]) ?w))"
    using liftA2_both_some [where fn = ?swap and a = "Number 1" and b = "Number 2"
        and w = ?w and w' = ?w and v = "Array [Number 2, Number 1]"] r by blast
  have b: "liftA2 ?swap NONE ?one ?w = (Inr NONE, ?w)"
    using liftA2_both_some [where fn = ?swap and ?option1.0 = NONE and ?option2.0 = ?one
        and w = ?w] n by blast
  have c: "liftA2 ?swap ?one NONE ?w = (Inr NONE, ?w)"
    using liftA2_both_some [where fn = ?swap and ?option1.0 = ?one and ?option2.0 = NONE
        and w = ?w] n by blast
  have d: "invocations (snd (liftA2 (\<lambda>x y. counted (?swapc x y)) ?one NONE ?wc))
      = (if isSome ?one \<and> isSome NONE then Suc (invocations ?wc) else invocations ?wc)"
    using liftA2_both_some [where g = ?swapc and ?option1.0 = ?one and ?option2.0 = NONE
        and wc = ?wc] by blast
  have e: "invocations (snd (liftA2 (\<lambda>x y. counted (?swapc x y)) ?one ?two ?wc))
      = (if isSome ?one \<and> isSome ?two then Suc (invocations ?wc) else invocations ?wc)"
    using liftA2_both_some [where g = ?swapc and ?option1.0 = ?one and ?option2.0 = ?two
        and wc = ?wc] by blast
  from n r a b c d e show ?thesis
    by (simp add: invocations_def some_def isSome_def NONE_def loaded_def)
qed


text \<open>
  C8. \<^verbatim>\<open>or(some(a), x)\<close> is \<^verbatim>\<open>some(a)\<close> (the very object) for any \<open>x\<close>, and
  \<^verbatim>\<open>or(none(), option2)\<close> is \<open>option2\<close> as it is, Some or None.
\<close>

theorem or_Option_first_some:
  "or_Option (fst (some a w)) x = fst (some a w)
   \<and> or_Option (fst (none w)) option2 = option2
   \<and> (isSome option1 \<longrightarrow> or_Option option1 x = option1)
   \<and> (isNone option1 \<longrightarrow> or_Option option1 option2 = option2)"
  by (simp add: or_Option_def isSome_some none_def not_isSome_NONE isNone_not_isSome)

theorem or_Option_first_some_witness:
  "isSome \<lparr>ident = 1, kind = ''some'', value = Number 1\<rparr>
   \<and> or_Option \<lparr>ident = 1, kind = ''some'', value = Number 1\<rparr>
        \<lparr>ident = 2, kind = ''some'', value = Number 2\<rparr>
       = \<lparr>ident = 1, kind = ''some'', value = Number 1\<rparr>
   \<and> or_Option \<lparr>ident = 1, kind = ''some'', value = Number 1\<rparr> NONE
       = \<lparr>ident = 1, kind = ''some'', value = Number 1\<rparr>
   \<and> isNone NONE
   \<and> or_Option NONE \<lparr>ident = 2, kind = ''some'', value = Number 2\<rparr>
       = \<lparr>ident = 2, kind = ''some'', value = Number 2\<rparr>
   \<and> or_Option NONE NONE = NONE"
proof -
  let ?one = "\<lparr>ident = 1, kind = ''some'', value = Number 1\<rparr>"
  let ?two = "\<lparr>ident = 2, kind = ''some'', value = Number 2\<rparr>"
  have s: "isSome ?one"
    by (simp add: isSome_def)
  have n: "isNone NONE"
    by (rule isNone_NONE)
  have a: "or_Option ?one ?two = ?one"
    using or_Option_first_some [where ?option1.0 = ?one and x = ?two] s by blast
  have b: "or_Option ?one NONE = ?one"
    using or_Option_first_some [where ?option1.0 = ?one and x = NONE] s by blast
  have c: "or_Option NONE ?two = ?two"
    using or_Option_first_some [where ?option1.0 = NONE and ?option2.0 = ?two] n by blast
  have d: "or_Option NONE NONE = NONE"
    using or_Option_first_some [where ?option1.0 = NONE and ?option2.0 = NONE] n by blast
  from s n a b c d show ?thesis by simp
qed


text \<open>
  C9. Every call of \<^verbatim>\<open>none()\<close> returns the one object \<^verbatim>\<open>NONE\<close> built when the module
  was loaded: two calls, in whatever states, return the same address and the same
  fields, a call allocates nothing and changes nothing, and allocating other Options
  in between makes no difference. (Compare \<open>some_is_fresh\<close>: two calls of
  \<^verbatim>\<open>some(v)\<close> return two objects.)
\<close>

theorem none_singleton:
  "fst (none w1) = fst (none w2)
   \<and> ident (fst (none w1)) = ident (fst (none w2))
   \<and> fst (none w1) = NONE
   \<and> snd (none w1) = w1
   \<and> isNone (fst (none w1)) \<and> \<not> isSome (fst (none w1))
   \<and> fst (none (snd (some v w1))) = fst (none w1)"
  by (simp add: none_def isNone_NONE not_isSome_NONE)


text \<open>
  C10. \<^verbatim>\<open>and(option1, option2)\<close> equals \<^verbatim>\<open>liftA2((a, b) => [a, b], option1, option2)\<close>:
  the same returned object at the same address and the same state afterwards.
\<close>

theorem and_Option_is_liftA2_pair:
  "returns (and_Option option1 option2) w
     = liftA2 (\<lambda>a b. ret (Array [a, b])) option1 option2 w"
  by (simp add: and_Option_def liftA2_def returns_def andThen_def ret_def)

end
